theory Spec2Isabelle
  imports Main
begin

section \<open>Package protocol: the wire codec\<close>

text \<open>
  Go strings are byte sequences, and so are HOL strings (\<open>char list\<close>), so the
  codec is modelled on \<open>string\<close> directly.
\<close>

definition TypeJoin :: string where "TypeJoin = ''JOIN''"
definition TypeSend :: string where "TypeSend = ''SEND''"
definition TypeLeave :: string where "TypeLeave = ''LEAVE''"
definition TypeOK :: string where "TypeOK = ''OK''"
definition TypeErr :: string where "TypeErr = ''ERR''"
definition TypeMsg :: string where "TypeMsg = ''MSG''"
definition TypeJoined :: string where "TypeJoined = ''JOINED''"
definition TypeLeft :: string where "TypeLeft = ''LEFT''"

text \<open>The struct \<open>Message\<close>; an omitted field of a Go literal is the empty string.\<close>

record Message =
  Type :: string
  Username :: string
  Body :: string

text \<open>\<open>ErrInvalidMessage\<close> is the only error value of the package.\<close>

datatype error = ErrInvalidMessage

definition Encode :: "Message \<Rightarrow> string" where
  "Encode m =
    (if Type m = TypeJoin then TypeJoin @ ''|'' @ Username m
     else if Type m = TypeSend then TypeSend @ ''|'' @ Body m
     else if Type m = TypeLeave then TypeLeave
     else if Type m = TypeOK then TypeOK
     else if Type m = TypeErr then TypeErr @ ''|'' @ Body m
     else if Type m = TypeMsg then TypeMsg @ ''|'' @ Username m @ ''|'' @ Body m
     else if Type m = TypeJoined then TypeJoined @ ''|'' @ Username m
     else if Type m = TypeLeft then TypeLeft @ ''|'' @ Username m
     else '''')"

text \<open>
  \<open>strings.Index\<close> and \<open>strings.SplitN\<close> of the Go standard library, for a
  separator of one byte (the codec only ever splits on \<open>"|"\<close>) and a count
  \<open>n \<ge> 0\<close>: \<open>Index\<close> is the position of the first occurrence (\<open>None\<close> for Go's
  \<open>-1\<close>); \<open>SplitN\<close> cuts at most \<open>n - 1\<close> times, the last piece being the
  unsplit remainder, and returns no piece at all for \<open>n = 0\<close>.
\<close>

fun Index :: "string \<Rightarrow> char \<Rightarrow> nat option" where
  "Index [] sep = None"
| "Index (c # cs) sep = (if c = sep then Some 0 else map_option Suc (Index cs sep))"

fun SplitN :: "string \<Rightarrow> char \<Rightarrow> nat \<Rightarrow> string list" where
  "SplitN s sep 0 = []"
| "SplitN s sep (Suc 0) = [s]"
| "SplitN s sep (Suc (Suc n)) =
    (case Index s sep of
       None \<Rightarrow> [s]
     | Some m \<Rightarrow> take m s # SplitN (drop (Suc m) s) sep (Suc n))"

text \<open>
  \<open>Decode\<close>: the error return \<open>(Message{}, ErrInvalidMessage)\<close> is \<open>Inl\<close>, the
  success \<open>(m, nil)\<close> is \<open>Inr m\<close>. \<open>parts ! 1\<close> is only read behind the
  \<open>len(parts) < 2\<close> guard, as in the source.
\<close>

definition Decode :: "string \<Rightarrow> error + Message" where
  "Decode line =
    (if line = '''' then Inl ErrInvalidMessage
     else
       let parts = SplitN line (CHR ''|'') 2;
           msgType = parts ! 0
       in
         if msgType = TypeJoin then
           (if length parts < 2 \<or> parts ! 1 = '''' then Inl ErrInvalidMessage
            else Inr \<lparr>Type = TypeJoin, Username = parts ! 1, Body = ''''\<rparr>)
         else if msgType = TypeSend then
           (if length parts < 2 \<or> parts ! 1 = '''' then Inl ErrInvalidMessage
            else Inr \<lparr>Type = TypeSend, Username = '''', Body = parts ! 1\<rparr>)
         else if msgType = TypeLeave then
           Inr \<lparr>Type = TypeLeave, Username = '''', Body = ''''\<rparr>
         else if msgType = TypeOK then
           Inr \<lparr>Type = TypeOK, Username = '''', Body = ''''\<rparr>
         else if msgType = TypeErr then
           (if length parts < 2 \<or> parts ! 1 = '''' then Inl ErrInvalidMessage
            else Inr \<lparr>Type = TypeErr, Username = '''', Body = parts ! 1\<rparr>)
         else if msgType = TypeMsg then
           (if length parts < 2 then Inl ErrInvalidMessage
            else
              let subParts = SplitN (parts ! 1) (CHR ''|'') 2
              in if length subParts < 2 \<or> subParts ! 0 = '''' \<or> subParts ! 1 = ''''
                 then Inl ErrInvalidMessage
                 else Inr \<lparr>Type = TypeMsg, Username = subParts ! 0, Body = subParts ! 1\<rparr>)
         else if msgType = TypeJoined then
           (if length parts < 2 \<or> parts ! 1 = '''' then Inl ErrInvalidMessage
            else Inr \<lparr>Type = TypeJoined, Username = parts ! 1, Body = ''''\<rparr>)
         else if msgType = TypeLeft then
           (if length parts < 2 \<or> parts ! 1 = '''' then Inl ErrInvalidMessage
            else Inr \<lparr>Type = TypeLeft, Username = parts ! 1, Body = ''''\<rparr>)
         else Inl ErrInvalidMessage)"

section \<open>Package server: sessions, registry, supervisor\<close>

text \<open>
  A buffered channel of strings: the lines waiting in it, oldest first, and its
  capacity (fixed by \<open>make(chan string, n)\<close>). A receive takes the head.
\<close>

record chan =
  buf :: "string list"
  cap :: nat

definition outboxSize :: nat where "outboxSize = 256"

text \<open>
  \<open>ConnectedClient\<close>: the name, the outbox and whether \<open>done\<close> has been closed.
  Every client is allocated by \<open>newConnectedClient\<close> (or a test literal) with a
  channel of its own and is reachable only through its registry entry, so the
  pointer \<open>*ConnectedClient\<close> is identified with the value it points to. The
  fields \<open>conn\<close> and \<open>server\<close> are back references; the operations below receive
  the connection and the server as arguments instead.
\<close>

record ConnectedClient =
  username :: string
  outbox :: chan
  done_ch :: bool

definition newConnectedClient :: "string \<Rightarrow> ConnectedClient" where
  "newConnectedClient name =
     \<lparr>username = name, outbox = \<lparr>buf = [], cap = outboxSize\<rparr>, done_ch = False\<rparr>"

text \<open>
  \<open>Send\<close>: the \<open>select\<close> with a \<open>default\<close> branch sends when the buffer has room
  and otherwise falls through to the log call, which changes no program state.
  It has no result value and cannot block.
\<close>

definition Send :: "ConnectedClient \<Rightarrow> string \<Rightarrow> ConnectedClient" where
  "Send c line =
     (if length (buf (outbox c)) < cap (outbox c)
      then c\<lparr>outbox := (outbox c)\<lparr>buf := buf (outbox c) @ [line]\<rparr>\<rparr>
      else c)"

text \<open>
  \<open>ChatServer\<close>: the map \<open>clients\<close>. Under the mutex \<open>addClient\<close>, the removal
  in \<open>removeClient\<close> and the loop of \<open>broadcast\<close> are each one atomic step,
  which is how they are modelled; \<open>removeClient\<close> releases the lock before it
  broadcasts, and here the two steps follow each other directly. Listener,
  quit channel and wait group take no part in these operations.
\<close>

record ChatServer =
  clients :: "string \<rightharpoonup> ConnectedClient"

definition New :: ChatServer where
  "New = \<lparr>clients = Map.empty\<rparr>"

definition addClient :: "ChatServer \<Rightarrow> ConnectedClient \<Rightarrow> bool \<times> ChatServer" where
  "addClient s c =
     (if clients s (username c) \<noteq> None then (False, s)
      else (True, s\<lparr>clients := (clients s)(username c \<mapsto> c)\<rparr>))"

text \<open>
  \<open>for name, c := range s.clients\<close> visits every key of the map once, in an order
  the Go runtime chooses. The choice is a parameter: a \<open>range_order\<close> gives, for
  a map, the list of keys in visiting order. \<open>range_ok\<close> says that a list is a
  possible visiting order of a map. The loop body is \<open>visit\<close>; it looks up the
  client of the visited key, which is always present for a possible order.
\<close>

type_synonym range_order = "(string \<rightharpoonup> ConnectedClient) \<Rightarrow> string list"

definition range_ok :: "string list \<Rightarrow> (string \<rightharpoonup> ConnectedClient) \<Rightarrow> bool" where
  "range_ok ks m \<longleftrightarrow> distinct ks \<and> set ks = dom m"

text \<open>
  One way to choose: walk a fixed list of names and visit those that are keys of
  the map. For a list without repetition that covers the keys this is a
  possible visiting order.
\<close>

definition order_of :: "string list \<Rightarrow> range_order" where
  "order_of ks m = filter (\<lambda>k. m k \<noteq> None) ks"

definition visit :: "string \<Rightarrow> string \<Rightarrow> string \<Rightarrow> ChatServer \<Rightarrow> ChatServer" where
  "visit sender line name s =
     (case clients s name of
        None \<Rightarrow> s
      | Some c \<Rightarrow>
          if name \<noteq> sender then s\<lparr>clients := (clients s)(name \<mapsto> Send c line)\<rparr>
          else s)"

fun range_clients :: "string \<Rightarrow> string \<Rightarrow> string list \<Rightarrow> ChatServer \<Rightarrow> ChatServer" where
  "range_clients sender line [] s = s"
| "range_clients sender line (name # ks) s =
     range_clients sender line ks (visit sender line name s)"

definition broadcast :: "range_order \<Rightarrow> ChatServer \<Rightarrow> string \<Rightarrow> string \<Rightarrow> ChatServer" where
  "broadcast order s sender line = range_clients sender line (order (clients s)) s"

definition removeClient :: "range_order \<Rightarrow> ChatServer \<Rightarrow> string \<Rightarrow> ChatServer" where
  "removeClient order s name =
     (let exists = (clients s name \<noteq> None);
          s' = s\<lparr>clients := (clients s)(name := None)\<rparr>
      in if exists
         then broadcast order s' name (Encode \<lparr>Type = TypeLeft, Username = name, Body = ''''\<rparr>)
         else s')"

text \<open>
  \<open>addClient\<close> files a client under its own \<open>username\<close>, so in every registry
  the program builds the key of an entry is the name of its client.
\<close>

definition keyed_by_name :: "ChatServer \<Rightarrow> bool" where
  "keyed_by_name s \<longleftrightarrow> (\<forall>name c. clients s name = Some c \<longrightarrow> username c = name)"

text \<open>
  A connection as the supervisor sees it. \<open>handleConnection\<close> and \<open>readLoop\<close>
  each open a \<open>bufio.Scanner\<close> of their own on it. \<open>input\<close> holds the lines the
  scanner of \<open>handleConnection\<close> yields, in order (after the last one \<open>Scan\<close>
  returns false: end of input, a read error, the expired deadline or a line
  longer than the 4096-byte buffer); only the first of them is ever read.
  \<open>reader_input\<close> holds the lines the scanner of \<open>readLoop\<close> yields: what
  arrives beyond the bytes the first scanner has taken into its buffer, which
  are lost with that scanner. The two fields are independent inputs. \<open>written\<close>
  holds the lines written to the connection so far, \<open>closed\<close> whether it has been
  closed.
\<close>

record Conn =
  input :: "string list"
  reader_input :: "string list"
  written :: "string list"
  closed :: bool

definition Fprintf :: "Conn \<Rightarrow> string \<Rightarrow> Conn" where
  \<comment> \<open>\<open>fmt.Fprintf(conn, "%s\n", line)\<close>; the code ignores its error result.\<close>
  "Fprintf conn line = conn\<lparr>written := written conn @ [line]\<rparr>"

definition Close :: "Conn \<Rightarrow> Conn" where
  "Close conn = conn\<lparr>closed := True\<rparr>"

text \<open>
  \<open>readLoop\<close> of the client named \<open>name\<close>: undecodable lines and lines of any
  other type are skipped, a SEND is relayed as a MSG, a LEAVE or the end of the
  input ends the loop. The result is the server and the unread input.
\<close>

fun readLoop :: "range_order \<Rightarrow> string \<Rightarrow> ChatServer \<Rightarrow> string list \<Rightarrow> ChatServer \<times> string list" where
  "readLoop order name s [] = (s, [])"
| "readLoop order name s (text # rest) =
     (case Decode text of
        Inl err \<Rightarrow> readLoop order name s rest
      | Inr msg \<Rightarrow>
          if Type msg = TypeSend then
            readLoop order name
              (broadcast order s name
                 (Encode \<lparr>Type = TypeMsg, Username = name, Body = Body msg\<rparr>)) rest
          else if Type msg = TypeLeave then (s, rest)
          else readLoop order name s rest)"

definition close_done :: "ChatServer \<Rightarrow> string \<Rightarrow> ChatServer" where
  \<comment> \<open>\<open>close(client.done)\<close> on the registered client.\<close>
  "close_done s name =
     (case clients s name of
        None \<Rightarrow> s
      | Some c \<Rightarrow> s\<lparr>clients := (clients s)(name \<mapsto> c\<lparr>done_ch := True\<rparr>)\<rparr>)"

text \<open>
  \<open>handleConnection\<close>, one connection from accept to close, run on its own. The
  deferred \<open>conn.Close()\<close> is applied at every return. After the handshake the
  reader works on \<open>reader_input\<close>, the lines of its own scanner, and the rest
  of \<open>input\<close> is never read. The writer started with
  \<open>go client.writeLoop()\<close> runs beside the reader and only moves lines from the
  client's outbox to the connection; it is left out of this sequential run.
\<close>

definition handleConnection :: "range_order \<Rightarrow> ChatServer \<Rightarrow> Conn \<Rightarrow> ChatServer \<times> Conn" where
  "handleConnection order s conn0 =
     (case input conn0 of
        [] \<Rightarrow> (s, Close conn0)
      | text # rest \<Rightarrow>
          (let conn = conn0\<lparr>input := rest\<rparr> in
            (case Decode text of
               Inl err \<Rightarrow>
                 (s, Close (Fprintf conn (Encode
                    \<lparr>Type = TypeErr, Username = '''', Body = ''expected JOIN message''\<rparr>)))
             | Inr msg \<Rightarrow>
                 (if Type msg \<noteq> TypeJoin then
                    (s, Close (Fprintf conn (Encode
                       \<lparr>Type = TypeErr, Username = '''', Body = ''expected JOIN message''\<rparr>)))
                  else
                    (let name = Username msg in
                      if name = '''' then
                        (s, Close (Fprintf conn (Encode
                           \<lparr>Type = TypeErr, Username = '''', Body = ''username cannot be empty''\<rparr>)))
                      else
                        (let client = newConnectedClient name;
                             (added, s1) = addClient s client
                         in
                           if \<not> added then
                             (s, Close (Fprintf conn (Encode
                                \<lparr>Type = TypeErr, Username = '''', Body = ''username taken''\<rparr>)))
                           else
                             (let conn1 = Fprintf conn
                                    (Encode \<lparr>Type = TypeOK, Username = '''', Body = ''''\<rparr>);
                                  s2 = broadcast order s1 name
                                    (Encode \<lparr>Type = TypeJoined, Username = name, Body = ''''\<rparr>);
                                  (s3, unread) = readLoop order name s2 (reader_input conn1);
                                  s4 = close_done s3 name;
                                  s5 = removeClient order s4 name
                              in (s5, Close (conn1\<lparr>reader_input := unread\<rparr>)))))))))"

section \<open>Facts about the split\<close>

lemmas Type_defs =
  TypeJoin_def TypeSend_def TypeLeave_def TypeOK_def
  TypeErr_def TypeMsg_def TypeJoined_def TypeLeft_def

lemma Index_None_iff: "Index s sep = None \<longleftrightarrow> sep \<notin> set s"
  by (induction s) auto

lemma Index_append_sep:
  "sep \<notin> set p \<Longrightarrow> Index (p @ sep # r) sep = Some (length p)"
  by (induction p) auto

lemma SplitN_2_none: "sep \<notin> set s \<Longrightarrow> SplitN s sep 2 = [s]"
  using Index_None_iff [of s sep] by (simp add: numeral_2_eq_2)

lemma SplitN_2_cut: "sep \<notin> set p \<Longrightarrow> SplitN (p @ sep # r) sep 2 = [p, r]"
  by (simp add: numeral_2_eq_2 Index_append_sep)

section \<open>Decoding the lines of each message type\<close>

lemma Decode_Join_line:
  assumes "x \<noteq> ''''"
  shows "Decode (''JOIN|'' @ x) = Inr \<lparr>Type = TypeJoin, Username = x, Body = ''''\<rparr>"
proof -
  have "SplitN (''JOIN|'' @ x) (CHR ''|'') 2 = [''JOIN'', x]"
    using SplitN_2_cut [of "CHR ''|''" "''JOIN''" x] by simp
  then show ?thesis
    unfolding Decode_def using assms by (simp add: Type_defs)
qed

lemma Decode_Send_line:
  assumes "x \<noteq> ''''"
  shows "Decode (''SEND|'' @ x) = Inr \<lparr>Type = TypeSend, Username = '''', Body = x\<rparr>"
proof -
  have "SplitN (''SEND|'' @ x) (CHR ''|'') 2 = [''SEND'', x]"
    using SplitN_2_cut [of "CHR ''|''" "''SEND''" x] by simp
  then show ?thesis
    unfolding Decode_def using assms by (simp add: Type_defs)
qed

lemma Decode_Err_line:
  assumes "x \<noteq> ''''"
  shows "Decode (''ERR|'' @ x) = Inr \<lparr>Type = TypeErr, Username = '''', Body = x\<rparr>"
proof -
  have "SplitN (''ERR|'' @ x) (CHR ''|'') 2 = [''ERR'', x]"
    using SplitN_2_cut [of "CHR ''|''" "''ERR''" x] by simp
  then show ?thesis
    unfolding Decode_def using assms by (simp add: Type_defs)
qed

lemma Decode_Joined_line:
  assumes "x \<noteq> ''''"
  shows "Decode (''JOINED|'' @ x) = Inr \<lparr>Type = TypeJoined, Username = x, Body = ''''\<rparr>"
proof -
  have "SplitN (''JOINED|'' @ x) (CHR ''|'') 2 = [''JOINED'', x]"
    using SplitN_2_cut [of "CHR ''|''" "''JOINED''" x] by simp
  then show ?thesis
    unfolding Decode_def using assms by (simp add: Type_defs)
qed

lemma Decode_Left_line:
  assumes "x \<noteq> ''''"
  shows "Decode (''LEFT|'' @ x) = Inr \<lparr>Type = TypeLeft, Username = x, Body = ''''\<rparr>"
proof -
  have "SplitN (''LEFT|'' @ x) (CHR ''|'') 2 = [''LEFT'', x]"
    using SplitN_2_cut [of "CHR ''|''" "''LEFT''" x] by simp
  then show ?thesis
    unfolding Decode_def using assms by (simp add: Type_defs)
qed

lemma Decode_Msg_line:
  assumes "name \<noteq> ''''" "CHR ''|'' \<notin> set name" "body \<noteq> ''''"
  shows "Decode (''MSG|'' @ name @ ''|'' @ body)
           = Inr \<lparr>Type = TypeMsg, Username = name, Body = body\<rparr>"
proof -
  have outer: "SplitN (''MSG|'' @ name @ ''|'' @ body) (CHR ''|'') 2
                 = [''MSG'', name @ ''|'' @ body]"
    using SplitN_2_cut [of "CHR ''|''" "''MSG''" "name @ ''|'' @ body"] by simp
  have inner: "SplitN (name @ ''|'' @ body) (CHR ''|'') 2 = [name, body]"
    using SplitN_2_cut [of "CHR ''|''" name body] assms by simp
  show ?thesis
    unfolding Decode_def outer Let_def using inner assms by (simp add: Type_defs)
qed

lemma Decode_Leave_line:
  "Decode ''LEAVE'' = Inr \<lparr>Type = TypeLeave, Username = '''', Body = ''''\<rparr>"
  by (simp add: Decode_def Type_defs numeral_2_eq_2)

lemma Decode_OK_line:
  "Decode ''OK'' = Inr \<lparr>Type = TypeOK, Username = '''', Body = ''''\<rparr>"
  by (simp add: Decode_def Type_defs numeral_2_eq_2)

section \<open>The range loop of broadcast\<close>

text \<open>
  One visit changes the visited entry only, so for a possible visiting order the
  result of the loop does not depend on the order.
\<close>

lemma range_ok_order_of:
  "distinct ks \<Longrightarrow> dom m \<subseteq> set ks \<Longrightarrow> range_ok (order_of ks m) m"
  by (auto simp: range_ok_def order_of_def)

lemma visit_lookup:
  "clients (visit sender line k s) name =
     (if name = k \<and> k \<noteq> sender then map_option (\<lambda>c. Send c line) (clients s k)
      else clients s name)"
  by (simp add: visit_def split: option.split)

lemma range_clients_lookup:
  "distinct ks \<Longrightarrow>
   clients (range_clients sender line ks s) name =
     (if name \<in> set ks \<and> name \<noteq> sender
      then map_option (\<lambda>c. Send c line) (clients s name)
      else clients s name)"
proof (induction ks arbitrary: s)
  case Nil
  then show ?case by simp
next
  case (Cons k ks)
  then show ?case by (auto simp: visit_lookup)
qed

lemma range_clients_sender:
  "clients (range_clients sender line ks s) sender = clients s sender"
  by (induction ks arbitrary: s) (auto simp: visit_lookup)

lemma broadcast_lookup:
  assumes "range_ok (order (clients s)) (clients s)"
  shows "clients (broadcast order s sender line) name =
     (if name \<noteq> sender then map_option (\<lambda>c. Send c line) (clients s name)
      else clients s name)"
proof (cases "name \<in> dom (clients s)")
  case True
  then show ?thesis using assms
    by (simp add: broadcast_def range_ok_def range_clients_lookup)
next
  case False
  then have "clients s name = None" by auto
  then show ?thesis using assms False
    by (auto simp: broadcast_def range_ok_def range_clients_lookup)
qed

lemma broadcast_sender:
  "clients (broadcast order s sender line) sender = clients s sender"
  by (simp add: broadcast_def range_clients_sender)

lemma broadcast_order_irrelevant:
  assumes "range_ok (order (clients s)) (clients s)"
      and "range_ok (order' (clients s)) (clients s)"
  shows "broadcast order s sender line = broadcast order' s sender line"
proof -
  have "clients (broadcast order s sender line) = clients (broadcast order' s sender line)"
    using assms by (auto simp: broadcast_lookup)
  then show ?thesis by simp
qed

lemma removeClient_gone: "clients (removeClient order s u) u = None"
  by (simp add: removeClient_def Let_def broadcast_sender)

section \<open>Keys are names\<close>

lemma Send_username: "username (Send c line) = username c"
  by (simp add: Send_def)

lemma keyed_New: "keyed_by_name New"
  by (simp add: keyed_by_name_def New_def)

lemma keyed_addClient: "keyed_by_name s \<Longrightarrow> keyed_by_name (snd (addClient s c))"
  by (auto simp: keyed_by_name_def addClient_def)

lemma keyed_visit: "keyed_by_name s \<Longrightarrow> keyed_by_name (visit sender line k s)"
  by (auto simp: keyed_by_name_def visit_lookup Send_username split: if_splits)

lemma keyed_range_clients:
  "keyed_by_name s \<Longrightarrow> keyed_by_name (range_clients sender line ks s)"
  by (induction ks arbitrary: s) (simp_all add: keyed_visit)

lemma keyed_broadcast: "keyed_by_name s \<Longrightarrow> keyed_by_name (broadcast order s sender line)"
  by (simp add: broadcast_def keyed_range_clients)

lemma keyed_removeClient: "keyed_by_name s \<Longrightarrow> keyed_by_name (removeClient order s u)"
proof -
  assume "keyed_by_name s"
  then have "keyed_by_name (s\<lparr>clients := (clients s)(u := None)\<rparr>)"
    by (auto simp: keyed_by_name_def)
  then show ?thesis
    by (simp add: removeClient_def Let_def keyed_broadcast)
qed

section \<open>Registry and sessions\<close>

text \<open>
  C1. Whatever the registry holds besides them, when alice, bob and charlie are
  registered (under their names, the keys of the map) and the range loop
  visits the keys in any possible order,
  \<open>broadcast\<close> with sender \<open>alice\<close> applies \<open>Send\<close> with the line to the client
  of every key other than \<open>alice\<close> (bob and charlie among them) and to nothing
  else: alice's client, outbox included, is as before, and no key appears or
  disappears. \<open>Send\<close> is the enqueue operation of a session: where the outbox has
  room, the line becomes its last element.
\<close>

theorem broadcast_excludes_sender:
  assumes "clients s ''alice'' = Some a"
      and "clients s ''bob'' = Some b"
      and "clients s ''charlie'' = Some c"
      and "range_ok (order (clients s)) (clients s)"
  shows "clients (broadcast order s ''alice'' line) ''alice'' = Some a
       \<and> clients (broadcast order s ''alice'' line) ''bob'' = Some (Send b line)
       \<and> clients (broadcast order s ''alice'' line) ''charlie'' = Some (Send c line)
       \<and> (\<forall>name x. name \<noteq> ''alice'' \<longrightarrow> clients s name = Some x \<longrightarrow>
             clients (broadcast order s ''alice'' line) name = Some (Send x line)
           \<and> (length (buf (outbox x)) < cap (outbox x) \<longrightarrow>
                buf (outbox (Send x line)) = buf (outbox x) @ [line]))
       \<and> dom (clients (broadcast order s ''alice'' line)) = dom (clients s)"
proof -
  have look: "\<And>name. clients (broadcast order s ''alice'' line) name =
     (if name \<noteq> ''alice'' then map_option (\<lambda>c. Send c line) (clients s name)
      else clients s name)"
    using assms(4) by (rule broadcast_lookup)
  have "dom (clients (broadcast order s ''alice'' line)) = dom (clients s)"
    by (auto simp: look dom_def)
  then show ?thesis using assms(1-3) by (simp add: look Send_def)
qed

theorem broadcast_excludes_sender_witness:
  "clients (broadcast (order_of [''charlie'', ''alice'', ''bob''])
      \<lparr>clients = [''alice'' \<mapsto> newConnectedClient ''alice'',
                  ''bob'' \<mapsto> newConnectedClient ''bob'',
                  ''charlie'' \<mapsto> newConnectedClient ''charlie'']\<rparr>
      ''alice'' ''MSG|alice|hi'') ''bob''
     = Some \<lparr>username = ''bob'', outbox = \<lparr>buf = [''MSG|alice|hi''], cap = 256\<rparr>,
              done_ch = False\<rparr>
 \<and> clients (broadcast (order_of [''charlie'', ''alice'', ''bob''])
      \<lparr>clients = [''alice'' \<mapsto> newConnectedClient ''alice'',
                  ''bob'' \<mapsto> newConnectedClient ''bob'',
                  ''charlie'' \<mapsto> newConnectedClient ''charlie'']\<rparr>
      ''alice'' ''MSG|alice|hi'') ''charlie''
     = Some \<lparr>username = ''charlie'', outbox = \<lparr>buf = [''MSG|alice|hi''], cap = 256\<rparr>,
              done_ch = False\<rparr>
 \<and> clients (broadcast (order_of [''charlie'', ''alice'', ''bob''])
      \<lparr>clients = [''alice'' \<mapsto> newConnectedClient ''alice'',
                  ''bob'' \<mapsto> newConnectedClient ''bob'',
                  ''charlie'' \<mapsto> newConnectedClient ''charlie'']\<rparr>
      ''alice'' ''MSG|alice|hi'') ''alice''
     = Some \<lparr>username = ''alice'', outbox = \<lparr>buf = [], cap = 256\<rparr>, done_ch = False\<rparr>"
proof -
  let ?s = "\<lparr>clients = [''alice'' \<mapsto> newConnectedClient ''alice'',
                  ''bob'' \<mapsto> newConnectedClient ''bob'',
                  ''charlie'' \<mapsto> newConnectedClient ''charlie'']\<rparr>"
  have ok: "range_ok (order_of [''charlie'', ''alice'', ''bob''] (clients ?s)) (clients ?s)"
    by (rule range_ok_order_of) auto
  show ?thesis
    using broadcast_excludes_sender
            [of ?s "newConnectedClient ''alice''" "newConnectedClient ''bob''"
                "newConnectedClient ''charlie''" "order_of [''charlie'', ''alice'', ''bob'']"
                "''MSG|alice|hi''"] ok
    by (simp add: Send_def newConnectedClient_def outboxSize_def)
qed

text \<open>
  C2. \<open>addClient\<close> on a name that is present returns false and the server as it
  was; on a name that is absent it returns true, the new registry maps the
  name to the client and agrees with the old one on every other name.
\<close>

theorem addClient_rejects_duplicate:
  "(clients s (username c) \<noteq> None \<longrightarrow> addClient s c = (False, s))
 \<and> (clients s (username c) = None \<longrightarrow>
      fst (addClient s c) = True
    \<and> clients (snd (addClient s c)) (username c) = Some c
    \<and> (\<forall>name. name \<noteq> username c \<longrightarrow>
          clients (snd (addClient s c)) name = clients s name))"
  by (simp add: addClient_def)

theorem addClient_rejects_duplicate_witness:
  "fst (addClient New (newConnectedClient ''alice'')) = True
 \<and> clients (snd (addClient New (newConnectedClient ''alice''))) ''alice''
      = Some (newConnectedClient ''alice'')
 \<and> addClient \<lparr>clients = [''alice'' \<mapsto> newConnectedClient ''alice'']\<rparr>
      \<lparr>username = ''alice'', outbox = \<lparr>buf = [], cap = 1\<rparr>, done_ch = False\<rparr>
      = (False, \<lparr>clients = [''alice'' \<mapsto> newConnectedClient ''alice'']\<rparr>)"
  using addClient_rejects_duplicate [of New "newConnectedClient ''alice''"]
        addClient_rejects_duplicate
          [of "\<lparr>clients = [''alice'' \<mapsto> newConnectedClient ''alice'']\<rparr>"
              "\<lparr>username = ''alice'', outbox = \<lparr>buf = [], cap = 1\<rparr>, done_ch = False\<rparr>"]
  by (simp add: New_def newConnectedClient_def)

text \<open>
  C3. \<open>Send\<close> is a total function with no error result. On an outbox that holds
  as many lines as its capacity it returns the client unchanged: the new line
  is dropped and the queued lines stay, in order. On an outbox with room the
  line is appended at the end and nothing else changes.
\<close>

theorem Send_drops_when_full:
  "(length (buf (outbox c)) = cap (outbox c) \<longrightarrow> Send c line = c)
 \<and> (length (buf (outbox c)) < cap (outbox c) \<longrightarrow>
      buf (outbox (Send c line)) = buf (outbox c) @ [line]
    \<and> cap (outbox (Send c line)) = cap (outbox c)
    \<and> username (Send c line) = username c
    \<and> done_ch (Send c line) = done_ch c)"
  by (simp add: Send_def)

theorem Send_drops_when_full_witness:
  "Send \<lparr>username = ''alice'', outbox = \<lparr>buf = [''msg1''], cap = 1\<rparr>, done_ch = False\<rparr> ''msg2''
     = \<lparr>username = ''alice'', outbox = \<lparr>buf = [''msg1''], cap = 1\<rparr>, done_ch = False\<rparr>
 \<and> buf (outbox (Send \<lparr>username = ''alice'', outbox = \<lparr>buf = [], cap = 1\<rparr>, done_ch = False\<rparr>
                     ''msg1''))
     = [''msg1'']"
  using Send_drops_when_full
          [of "\<lparr>username = ''alice'', outbox = \<lparr>buf = [''msg1''], cap = 1\<rparr>, done_ch = False\<rparr>"
              "''msg2''"]
        Send_drops_when_full
          [of "\<lparr>username = ''alice'', outbox = \<lparr>buf = [], cap = 1\<rparr>, done_ch = False\<rparr>"
              "''msg1''"]
  by simp

text \<open>
  C4. For any possible visiting order of the remaining keys, \<open>removeClient\<close>
  leaves no entry under the name; every other registered client receives
  \<open>Send\<close> of the line \<open>LEFT|name\<close> exactly when the name was present before the
  call, and is unchanged when it was not; no entry is created. Hence after
  \<open>addClient\<close> of a client named \<open>u\<close> and \<open>removeClient u\<close> there is no entry
  for \<open>u\<close>, and a further \<open>addClient\<close> of a client named \<open>u\<close> returns true and
  registers it.
\<close>

theorem removeClient_announces_left:
  assumes "range_ok (order ((clients s)(u := None))) ((clients s)(u := None))"
  shows "clients (removeClient order s u) u = None
       \<and> (\<forall>name x. name \<noteq> u \<longrightarrow> clients s name = Some x \<longrightarrow>
            clients (removeClient order s u) name =
              Some (if clients s u \<noteq> None then Send x (''LEFT|'' @ u) else x))
       \<and> (\<forall>name. clients s name = None \<longrightarrow> clients (removeClient order s u) name = None)
       \<and> (\<forall>c1 c2. username c1 = u \<longrightarrow> username c2 = u \<longrightarrow>
            clients (removeClient order (snd (addClient s c1)) u) u = None
          \<and> fst (addClient (removeClient order (snd (addClient s c1)) u) c2) = True
          \<and> clients (snd (addClient (removeClient order (snd (addClient s c1)) u) c2)) u
              = Some c2)"
proof -
  let ?s' = "s\<lparr>clients := (clients s)(u := None)\<rparr>"
  have enc: "Encode \<lparr>Type = TypeLeft, Username = u, Body = ''''\<rparr> = ''LEFT|'' @ u"
    by (simp add: Encode_def Type_defs)
  have ok: "range_ok (order (clients ?s')) (clients ?s')"
    using assms by simp
  have look: "\<And>name line. clients (broadcast order ?s' u line) name =
     (if name \<noteq> u then map_option (\<lambda>c. Send c line) (clients ?s' name)
      else clients ?s' name)"
    using ok by (rule broadcast_lookup)
  have others: "\<forall>name x. name \<noteq> u \<longrightarrow> clients s name = Some x \<longrightarrow>
            clients (removeClient order s u) name =
              Some (if clients s u \<noteq> None then Send x (''LEFT|'' @ u) else x)"
    by (simp add: removeClient_def Let_def look enc)
  have absent: "\<forall>name. clients s name = None \<longrightarrow> clients (removeClient order s u) name = None"
    by (simp add: removeClient_def Let_def look enc)
  have again: "\<forall>c1 c2. username c1 = u \<longrightarrow> username c2 = u \<longrightarrow>
            clients (removeClient order (snd (addClient s c1)) u) u = None
          \<and> fst (addClient (removeClient order (snd (addClient s c1)) u) c2) = True
          \<and> clients (snd (addClient (removeClient order (snd (addClient s c1)) u) c2)) u
              = Some c2"
    by (simp add: removeClient_gone addClient_def)
  show ?thesis
    using others absent again by (simp add: removeClient_gone)
qed

theorem removeClient_announces_left_witness:
  "clients (removeClient (order_of [''bob'', ''alice''])
      \<lparr>clients = [''alice'' \<mapsto> newConnectedClient ''alice'',
                  ''bob'' \<mapsto> newConnectedClient ''bob'']\<rparr> ''alice'') ''alice'' = None
 \<and> clients (removeClient (order_of [''bob'', ''alice''])
      \<lparr>clients = [''alice'' \<mapsto> newConnectedClient ''alice'',
                  ''bob'' \<mapsto> newConnectedClient ''bob'']\<rparr> ''alice'') ''bob''
      = Some \<lparr>username = ''bob'', outbox = \<lparr>buf = [''LEFT|alice''], cap = 256\<rparr>,
               done_ch = False\<rparr>
 \<and> clients (removeClient (order_of [''bob'', ''alice''])
      \<lparr>clients = [''alice'' \<mapsto> newConnectedClient ''alice'',
                  ''bob'' \<mapsto> newConnectedClient ''bob'']\<rparr> ''carol'') ''bob''
      = Some \<lparr>username = ''bob'', outbox = \<lparr>buf = [], cap = 256\<rparr>, done_ch = False\<rparr>
 \<and> fst (addClient
          (removeClient (order_of [''bob'', ''alice''])
             (snd (addClient New (newConnectedClient ''alice''))) ''alice'')
          \<lparr>username = ''alice'', outbox = \<lparr>buf = [], cap = 1\<rparr>, done_ch = False\<rparr>) = True"
proof -
  let ?s = "\<lparr>clients = [''alice'' \<mapsto> newConnectedClient ''alice'',
                  ''bob'' \<mapsto> newConnectedClient ''bob'']\<rparr>"
  let ?o = "order_of [''bob'', ''alice'']"
  have ok1: "range_ok (?o ((clients ?s)(''alice'' := None))) ((clients ?s)(''alice'' := None))"
    by (rule range_ok_order_of) auto
  have ok2: "range_ok (?o ((clients ?s)(''carol'' := None))) ((clients ?s)(''carol'' := None))"
    by (rule range_ok_order_of) auto
  have ok3: "range_ok (?o ((clients New)(''alice'' := None))) ((clients New)(''alice'' := None))"
    by (rule range_ok_order_of) (auto simp: New_def)
  show ?thesis
    using removeClient_announces_left [of ?o ?s "''alice''", OF ok1]
          removeClient_announces_left [of ?o ?s "''carol''", OF ok2]
          removeClient_announces_left [of ?o New "''alice''", OF ok3]
    by (simp add: Send_def newConnectedClient_def outboxSize_def)
qed

section \<open>The join handshake\<close>

text \<open>
  C5. When the first line a connection yields does not decode, or decodes to a
  message whose type is not JOIN, \<open>handleConnection\<close> writes the one line
  \<open>ERR|expected JOIN message\<close>, closes the connection and returns the server,
  hence the registry, as it was.
\<close>

theorem handleConnection_expects_join:
  assumes "input conn = text # rest"
      and "(\<exists>e. Decode text = Inl e) \<or> (\<exists>m. Decode text = Inr m \<and> Type m \<noteq> TypeJoin)"
  shows "handleConnection order s conn =
           (s, conn\<lparr>input := rest,
                    written := written conn @ [''ERR|expected JOIN message''],
                    closed := True\<rparr>)"
  using assms
  by (auto simp: handleConnection_def Close_def Fprintf_def Encode_def Type_defs)

theorem handleConnection_expects_join_witness:
  "handleConnection (order_of []) New \<lparr>input = [''SEND|x''], reader_input = [], written = [], closed = False\<rparr>
     = (New, \<lparr>input = [], reader_input = [], written = [''ERR|expected JOIN message''], closed = True\<rparr>)
 \<and> handleConnection (order_of []) New
      \<lparr>input = [''hello'', ''JOIN|bob''], reader_input = [], written = [], closed = False\<rparr>
     = (New, \<lparr>input = [''JOIN|bob''], reader_input = [], written = [''ERR|expected JOIN message''],
              closed = True\<rparr>)"
proof -
  have send: "Decode ''SEND|x'' = Inr \<lparr>Type = TypeSend, Username = '''', Body = ''x''\<rparr>"
    using Decode_Send_line [of "''x''"] by simp
  have junk: "Decode ''hello'' = Inl ErrInvalidMessage"
    by (simp add: Decode_def Type_defs numeral_2_eq_2)
  have diff: "TypeSend \<noteq> TypeJoin"
    by (simp add: Type_defs)
  show ?thesis
    using handleConnection_expects_join
            [of "\<lparr>input = [''SEND|x''], reader_input = [], written = [], closed = False\<rparr>" "''SEND|x''" "[]"
                "order_of []" New]
          handleConnection_expects_join
            [of "\<lparr>input = [''hello'', ''JOIN|bob''], reader_input = [], written = [], closed = False\<rparr>" "''hello''"
                "[''JOIN|bob'']" "order_of []" New]
          send junk diff
    by simp
qed

text \<open>
  C6. \<open>handleConnection\<close> has a branch of its own for a JOIN with an empty name,
  which writes \<open>ERR|username cannot be empty\<close>, but no line reaches it: the line
  \<open>JOIN|\<close> is refused by \<open>Decode\<close>, so the function returns at the check before.
  Whatever the server and the visiting order, on the first line \<open>JOIN|\<close> the one
  line written is \<open>ERR|expected JOIN message\<close>, not
  \<open>ERR|username cannot be empty\<close>; the connection is closed and the server is as
  before.
\<close>

theorem handleConnection_empty_username:
  "handleConnection order s
      \<lparr>input = [''JOIN|''], reader_input = [], written = [], closed = False\<rparr>
     = (s, \<lparr>input = [], reader_input = [], written = [''ERR|expected JOIN message''],
             closed = True\<rparr>)
 \<and> written (snd (handleConnection order s
                     \<lparr>input = [''JOIN|''], reader_input = [], written = [], closed = False\<rparr>))
     \<noteq> [''ERR|username cannot be empty'']"
proof -
  have "Decode ''JOIN|'' = Inl ErrInvalidMessage"
    by (simp add: Decode_def Type_defs numeral_2_eq_2)
  then show ?thesis
    by (simp add: handleConnection_def Close_def Fprintf_def Encode_def Type_defs)
qed

section \<open>The codec\<close>

text \<open>
  C7, as stated, fails. \<open>Encode\<close> writes the name of a MSG unescaped, and
  \<open>Decode\<close> cuts the payload at its first separator: a MSG whose name contains
  \<open>|\<close> comes back with the name cut short and the rest moved into the body.
  \<open>Encode\<close> also writes only the fields of the type, so a field the type does
  not use comes back empty.
\<close>

theorem Decode_Encode_not_inverse:
  "Decode (Encode \<lparr>Type = TypeMsg, Username = ''a|b'', Body = ''c''\<rparr>)
     = Inr \<lparr>Type = TypeMsg, Username = ''a'', Body = ''b|c''\<rparr>
 \<and> Decode (Encode \<lparr>Type = TypeMsg, Username = ''a|b'', Body = ''c''\<rparr>)
     \<noteq> Inr \<lparr>Type = TypeMsg, Username = ''a|b'', Body = ''c''\<rparr>
 \<and> Decode (Encode \<lparr>Type = TypeJoin, Username = ''alice'', Body = ''x''\<rparr>)
     = Inr \<lparr>Type = TypeJoin, Username = ''alice'', Body = ''''\<rparr>
 \<and> Decode (Encode \<lparr>Type = TypeJoin, Username = ''alice'', Body = ''x''\<rparr>)
     \<noteq> Inr \<lparr>Type = TypeJoin, Username = ''alice'', Body = ''x''\<rparr>"
  by (simp add: Decode_def Encode_def Type_defs numeral_2_eq_2)

text \<open>
  C7, amended. For a message of one of the eight types whose required fields
  are non-empty, whose other fields are empty, and whose name, if it is a MSG,
  contains no separator, \<open>Decode (Encode m)\<close> succeeds and returns \<open>m\<close>.
\<close>

theorem Decode_Encode_roundtrip:
  assumes ty: "Type m \<in> {TypeJoin, TypeSend, TypeLeave, TypeOK,
                          TypeErr, TypeMsg, TypeJoined, TypeLeft}"
      and usr: "if Type m \<in> {TypeJoin, TypeMsg, TypeJoined, TypeLeft}
                then Username m \<noteq> '''' else Username m = ''''"
      and bdy: "if Type m \<in> {TypeSend, TypeErr, TypeMsg}
                then Body m \<noteq> '''' else Body m = ''''"
      and sep: "Type m = TypeMsg \<longrightarrow> CHR ''|'' \<notin> set (Username m)"
  shows "Decode (Encode m) = Inr m"
proof -
  consider "Type m = TypeJoin" | "Type m = TypeSend" | "Type m = TypeLeave"
    | "Type m = TypeOK" | "Type m = TypeErr" | "Type m = TypeMsg"
    | "Type m = TypeJoined" | "Type m = TypeLeft"
    using ty by auto
  then show ?thesis
  proof cases
    case 1
    then have "Username m \<noteq> ''''" "Body m = ''''"
      using usr bdy by (simp_all add: Type_defs)
    then show ?thesis using 1 Decode_Join_line [of "Username m"]
      by (simp add: Encode_def Type_defs)
  next
    case 2
    then have "Username m = ''''" "Body m \<noteq> ''''"
      using usr bdy by (simp_all add: Type_defs)
    then show ?thesis using 2 Decode_Send_line [of "Body m"]
      by (simp add: Encode_def Type_defs)
  next
    case 3
    then have "Username m = ''''" "Body m = ''''"
      using usr bdy by (simp_all add: Type_defs)
    then show ?thesis using 3 Decode_Leave_line
      by (simp add: Encode_def Type_defs)
  next
    case 4
    then have "Username m = ''''" "Body m = ''''"
      using usr bdy by (simp_all add: Type_defs)
    then show ?thesis using 4 Decode_OK_line
      by (simp add: Encode_def Type_defs)
  next
    case 5
    then have "Username m = ''''" "Body m \<noteq> ''''"
      using usr bdy by (simp_all add: Type_defs)
    then show ?thesis using 5 Decode_Err_line [of "Body m"]
      by (simp add: Encode_def Type_defs)
  next
    case 6
    then have "Username m \<noteq> ''''" "Body m \<noteq> ''''" "CHR ''|'' \<notin> set (Username m)"
      using usr bdy sep by (simp_all add: Type_defs)
    then show ?thesis using 6 Decode_Msg_line [of "Username m" "Body m"]
      by (simp add: Encode_def Type_defs)
  next
    case 7
    then have "Username m \<noteq> ''''" "Body m = ''''"
      using usr bdy by (simp_all add: Type_defs)
    then show ?thesis using 7 Decode_Joined_line [of "Username m"]
      by (simp add: Encode_def Type_defs)
  next
    case 8
    then have "Username m \<noteq> ''''" "Body m = ''''"
      using usr bdy by (simp_all add: Type_defs)
    then show ?thesis using 8 Decode_Left_line [of "Username m"]
      by (simp add: Encode_def Type_defs)
  qed
qed

theorem Decode_Encode_roundtrip_witness:
  "Decode (Encode \<lparr>Type = TypeJoin, Username = ''alice'', Body = ''''\<rparr>)
     = Inr \<lparr>Type = TypeJoin, Username = ''alice'', Body = ''''\<rparr>
 \<and> Decode (Encode \<lparr>Type = TypeSend, Username = '''', Body = ''hello world''\<rparr>)
     = Inr \<lparr>Type = TypeSend, Username = '''', Body = ''hello world''\<rparr>
 \<and> Decode (Encode \<lparr>Type = TypeLeave, Username = '''', Body = ''''\<rparr>)
     = Inr \<lparr>Type = TypeLeave, Username = '''', Body = ''''\<rparr>
 \<and> Decode (Encode \<lparr>Type = TypeOK, Username = '''', Body = ''''\<rparr>)
     = Inr \<lparr>Type = TypeOK, Username = '''', Body = ''''\<rparr>
 \<and> Decode (Encode \<lparr>Type = TypeErr, Username = '''', Body = ''username taken''\<rparr>)
     = Inr \<lparr>Type = TypeErr, Username = '''', Body = ''username taken''\<rparr>
 \<and> Decode (Encode \<lparr>Type = TypeMsg, Username = ''bob'', Body = ''hi|there''\<rparr>)
     = Inr \<lparr>Type = TypeMsg, Username = ''bob'', Body = ''hi|there''\<rparr>
 \<and> Decode (Encode \<lparr>Type = TypeJoined, Username = ''charlie'', Body = ''''\<rparr>)
     = Inr \<lparr>Type = TypeJoined, Username = ''charlie'', Body = ''''\<rparr>
 \<and> Decode (Encode \<lparr>Type = TypeLeft, Username = ''dave'', Body = ''''\<rparr>)
     = Inr \<lparr>Type = TypeLeft, Username = ''dave'', Body = ''''\<rparr>"
  using Decode_Encode_roundtrip [of "\<lparr>Type = TypeJoin, Username = ''alice'', Body = ''''\<rparr>"]
        Decode_Encode_roundtrip [of "\<lparr>Type = TypeSend, Username = '''', Body = ''hello world''\<rparr>"]
        Decode_Encode_roundtrip [of "\<lparr>Type = TypeLeave, Username = '''', Body = ''''\<rparr>"]
        Decode_Encode_roundtrip [of "\<lparr>Type = TypeOK, Username = '''', Body = ''''\<rparr>"]
        Decode_Encode_roundtrip [of "\<lparr>Type = TypeErr, Username = '''', Body = ''username taken''\<rparr>"]
        Decode_Encode_roundtrip [of "\<lparr>Type = TypeMsg, Username = ''bob'', Body = ''hi|there''\<rparr>"]
        Decode_Encode_roundtrip [of "\<lparr>Type = TypeJoined, Username = ''charlie'', Body = ''''\<rparr>"]
        Decode_Encode_roundtrip [of "\<lparr>Type = TypeLeft, Username = ''dave'', Body = ''''\<rparr>"]
  by (simp add: Type_defs)

text \<open>
  C8. A MSG line is cut at the separator after the type and once more at the
  next one; what follows is the body, further separators included. So
  \<open>MSG|alice|a|b|c\<close> decodes to the MSG of \<open>alice\<close> with body \<open>a|b|c\<close>.
\<close>

theorem Decode_Msg_keeps_separators:
  assumes "name \<noteq> ''''" and "CHR ''|'' \<notin> set name" and "body \<noteq> ''''"
  shows "Decode (''MSG|'' @ name @ ''|'' @ body)
           = Inr \<lparr>Type = TypeMsg, Username = name, Body = body\<rparr>"
  using assms by (rule Decode_Msg_line)

theorem Decode_Msg_keeps_separators_witness:
  "''alice'' \<noteq> '''' \<and> CHR ''|'' \<notin> set ''alice'' \<and> ''a|b|c'' \<noteq> ''''
 \<and> Decode ''MSG|alice|a|b|c'' = Inr \<lparr>Type = TypeMsg, Username = ''alice'', Body = ''a|b|c''\<rparr>"
  using Decode_Msg_keeps_separators [of "''alice''" "''a|b|c''"] by simp

text \<open>
  C9. Whatever the line, a message that \<open>Decode\<close> returns has its required
  fields non-empty: the name of a JOIN, JOINED or LEFT, the body of a SEND or
  ERR, and both the name and the body of a MSG.
\<close>

theorem Decode_fields_nonempty:
  assumes "Decode line = Inr m"
  shows "(Type m \<in> {TypeJoin, TypeJoined, TypeLeft} \<longrightarrow> Username m \<noteq> '''')
       \<and> (Type m \<in> {TypeSend, TypeErr} \<longrightarrow> Body m \<noteq> '''')
       \<and> (Type m = TypeMsg \<longrightarrow> Username m \<noteq> '''' \<and> Body m \<noteq> '''')"
  using assms
  by (auto simp: Decode_def Let_def Type_defs split: if_splits)

theorem Decode_fields_nonempty_witness:
  "Decode ''JOIN|alice'' = Inr \<lparr>Type = TypeJoin, Username = ''alice'', Body = ''''\<rparr>
 \<and> Username \<lparr>Type = TypeJoin, Username = ''alice'', Body = ''''\<rparr> \<noteq> ''''
 \<and> Decode ''SEND|hello'' = Inr \<lparr>Type = TypeSend, Username = '''', Body = ''hello''\<rparr>
 \<and> Body \<lparr>Type = TypeSend, Username = '''', Body = ''hello''\<rparr> \<noteq> ''''
 \<and> Decode ''MSG|bob|hi'' = Inr \<lparr>Type = TypeMsg, Username = ''bob'', Body = ''hi''\<rparr>
 \<and> Username \<lparr>Type = TypeMsg, Username = ''bob'', Body = ''hi''\<rparr> \<noteq> ''''
 \<and> Body \<lparr>Type = TypeMsg, Username = ''bob'', Body = ''hi''\<rparr> \<noteq> ''''"
proof -
  have j: "Decode ''JOIN|alice'' = Inr \<lparr>Type = TypeJoin, Username = ''alice'', Body = ''''\<rparr>"
    using Decode_Join_line [of "''alice''"] by simp
  have s: "Decode ''SEND|hello'' = Inr \<lparr>Type = TypeSend, Username = '''', Body = ''hello''\<rparr>"
    using Decode_Send_line [of "''hello''"] by simp
  have m: "Decode ''MSG|bob|hi'' = Inr \<lparr>Type = TypeMsg, Username = ''bob'', Body = ''hi''\<rparr>"
    using Decode_Msg_line [of "''bob''" "''hi''"] by simp
  show ?thesis
    using Decode_fields_nonempty [OF j] Decode_fields_nonempty [OF s]
          Decode_fields_nonempty [OF m] j s m
    by simp
qed

text \<open>
  C10. For the two types without fields \<open>Decode\<close> looks at the type only:
  \<open>LEAVE|\<close> and \<open>OK|\<close> followed by any text decode to the LEAVE and the OK
  message, and the text is dropped.
\<close>

theorem Decode_ignores_trailing:
  "Decode (''LEAVE|'' @ s) = Inr \<lparr>Type = TypeLeave, Username = '''', Body = ''''\<rparr>
 \<and> Decode (''OK|'' @ s) = Inr \<lparr>Type = TypeOK, Username = '''', Body = ''''\<rparr>"
proof -
  have leave: "SplitN (''LEAVE|'' @ s) (CHR ''|'') 2 = [''LEAVE'', s]"
    using SplitN_2_cut [of "CHR ''|''" "''LEAVE''" s] by simp
  have ok: "SplitN (''OK|'' @ s) (CHR ''|'') 2 = [''OK'', s]"
    using SplitN_2_cut [of "CHR ''|''" "''OK''" s] by simp
  show ?thesis
    unfolding Decode_def leave ok by (simp add: Type_defs)
qed

theorem Decode_ignores_trailing_witness:
  "Decode ''LEAVE|see you'' = Inr \<lparr>Type = TypeLeave, Username = '''', Body = ''''\<rparr>
 \<and> Decode ''OK|a|b'' = Inr \<lparr>Type = TypeOK, Username = '''', Body = ''''\<rparr>"
  using Decode_ignores_trailing [of "''see you''"] Decode_ignores_trailing [of "''a|b''"]
  by simp

end
